theory Spec2Isabelle
  imports Complex_Main "HOL-Library.Sublist"
begin

section \<open>Tool relevance scoring and selection (remix-ai-core, toolScoring.ts)\<close>

text \<open>
  A shallow embedding of the class \<open>ToolScoring\<close>. Conventions of the model:
  \<^item> a JavaScript \<open>number\<close> that carries a score, a weight or a threshold is an exact
    rational (\<open>rat\<close>); the infinities and rounding are outside the model. \<open>NaN\<close> is
    modelled where the code can produce it: in \<open>domainRelevance\<close> and in the aggregate
    that \<open>calculateToolScore\<close> sums from it (type \<open>js_number\<close>);
  \<^item> a number that counts (\<open>maxTools\<close>, the counters of the loops, \<open>length\<close>) is a
    natural number;
  \<^item> a string is a \<open>char list\<close>; \<open>toLowerCase\<close> folds the ASCII letters;
  \<^item> a \<open>Record<string, number>\<close> is a finite map of its own keys. The table of domain
    weights is a plain object read with \<open>table[key]\<close>, so a key it does not hold itself
    is looked up in \<open>Object.prototype\<close>, whose members are functions or objects. The
    tables of the class are association lists in the order of the object literals, since
    \<open>Object.entries\<close> walks them in that order; they are read only under keys they
    hold themselves (the six intent types, the four component names);
  \<^item> \<open>x || d\<close> on a number is written out: \<open>d\<close> when \<open>x\<close> is absent or \<open>0\<close>;
  \<^item> every \<open>for\<close> loop is a recursive function over the list it walks, threading the
    variables the loop assigns.
\<close>

subsection \<open>Strings\<close>

definition toLowerChar :: "char \<Rightarrow> char" where
  "toLowerChar c =
     (case map_of (zip ''ABCDEFGHIJKLMNOPQRSTUVWXYZ'' ''abcdefghijklmnopqrstuvwxyz'') c of
        None \<Rightarrow> c
      | Some l \<Rightarrow> l)"

definition toLowerCase :: "string \<Rightarrow> string" where
  "toLowerCase s = map toLowerChar s"

text \<open>\<open>s.includes(t)\<close>: \<open>t\<close> occurs in \<open>s\<close> as a contiguous run of characters.\<close>

fun str_includes :: "string \<Rightarrow> string \<Rightarrow> bool" where
  "str_includes [] t = (t = [])"
| "str_includes (c # cs) t = (prefix t (c # cs) \<or> str_includes cs t)"

text \<open>\<open>s.substring(0, n)\<close>; a negative \<open>n\<close> counts as \<open>0\<close>.\<close>

definition substring0 :: "string \<Rightarrow> int \<Rightarrow> string" where
  "substring0 s n = take (nat n) s"

text \<open>\<open>parts.join(sep)\<close>.\<close>

fun join :: "string \<Rightarrow> string list \<Rightarrow> string" where
  "join sep [] = []"
| "join sep [x] = x"
| "join sep (x # y # ys) = x @ sep @ join sep (y # ys)"

subsection \<open>Data model\<close>

text \<open>
  \<open>IMCPTool\<close>: the field \<open>inputSchema\<close> holds the text that \<open>JSON.stringify\<close> yields
  for the schema (the empty string when the schema is absent, as \<open>join\<close> renders
  \<open>undefined\<close>).
\<close>

record IMCPTool =
  name :: string
  description :: "string option"
  inputSchema :: string

datatype intent_type = coding | documentation | debugging | explanation | generation | completion

record IUserIntent =
  type :: intent_type
  keywords' :: "string list"
  domains :: "string list"

record IEnhancedMCPProviderParams =
  domainWeights :: "(string \<rightharpoonup> rat) option"
  toolRelevanceThreshold :: "rat option"

text \<open>
  A number that may be \<open>NaN\<close>, with the sum, the product and the comparison of
  JavaScript: \<open>NaN\<close> absorbs, and no comparison with \<open>NaN\<close> holds.
\<close>

datatype js_number = Num rat | NaN

fun js_add :: "js_number \<Rightarrow> js_number \<Rightarrow> js_number" where
  "js_add (Num a) (Num b) = Num (a + b)"
| "js_add _ _ = NaN"

fun js_mul :: "js_number \<Rightarrow> js_number \<Rightarrow> js_number" where
  "js_mul (Num a) (Num b) = Num (a * b)"
| "js_mul _ _ = NaN"

fun js_gt :: "js_number \<Rightarrow> rat \<Rightarrow> bool" where
  "js_gt (Num a) b = (a > b)"
| "js_gt NaN b = False"

text \<open>
  The object \<open>components\<close>. Its field \<open>domainRelevance\<close> has type \<open>'n\<close>: it is a
  \<open>js_number\<close> in the object that \<open>calculateToolScore\<close> builds, and a rational in an
  entry that a caller holds.
\<close>

record 'n score_components =
  keywordMatch :: rat
  domainRelevance :: 'n
  typeRelevance :: rat
  actionMatch :: rat

subsection \<open>The tables of the class\<close>

definition defaultDomainWeights :: "(string \<times> rat) list" where
  "defaultDomainWeights =
     [(''solidity'', 1.0), (''javascript'', 0.8), (''react'', 0.7), (''web3'', 0.9),
      (''testing'', 0.6), (''deployment'', 0.7), (''security'', 1.0), (''defi'', 0.8),
      (''nft'', 0.7), (''compilation'', 0.9), (''debugging'', 0.9), (''file'', 0.7),
      (''tutorial'', 0.6)]"

definition intentTypeToActions :: "(intent_type \<times> string list) list" where
  "intentTypeToActions =
     [(coding, [''compile'', ''build'', ''create'', ''write'', ''generate'', ''scaffold'']),
      (documentation, [''read'', ''list'', ''get'', ''fetch'', ''show'']),
      (debugging, [''debug'', ''trace'', ''inspect'', ''breakpoint'', ''step'', ''watch'']),
      (explanation, [''read'', ''get'', ''analyze'', ''scan'', ''explain'']),
      (generation, [''create'', ''generate'', ''scaffold'', ''write'', ''build'']),
      (completion, [''get'', ''read'', ''list'', ''fetch'', ''autocomplete''])]"

definition actionPatterns :: "(string \<times> string list) list" where
  "actionPatterns =
     [(''file_operations'',
        [''read'', ''write'', ''create'', ''delete'', ''move'', ''copy'', ''list'', ''exists'']),
      (''compilation'', [''compile'', ''build'', ''verify'', ''optimize'']),
      (''deployment'', [''deploy'', ''send'', ''call'', ''execute'', ''run'']),
      (''debugging'', [''debug'', ''breakpoint'', ''step'', ''watch'', ''trace'', ''evaluate'']),
      (''analysis'', [''scan'', ''analyze'', ''check'', ''inspect'', ''validate'']),
      (''configuration'', [''set'', ''get'', ''config'', ''update'']),
      (''tutorial'', [''tutorial'', ''learn'', ''guide'', ''start''])]"

text \<open>\<open>this.intentTypeToActions[intentType] || []\<close>.\<close>

definition expectedActionsOf :: "intent_type \<Rightarrow> string list" where
  "expectedActionsOf intentType =
     (case map_of intentTypeToActions intentType of None \<Rightarrow> [] | Some actions \<Rightarrow> actions)"

subsection \<open>calculateKeywordMatch\<close>

definition descriptionOrEmpty :: "IMCPTool \<Rightarrow> string" where
  "descriptionOrEmpty t = (case description t of None \<Rightarrow> [] | Some d \<Rightarrow> d)"

definition keywordToolText :: "IMCPTool \<Rightarrow> string" where
  "keywordToolText t = toLowerCase (join '' '' [name t, descriptionOrEmpty t, inputSchema t])"

text \<open>The loop over the keywords; the pair is \<open>(matchScore, matchCount)\<close>.\<close>

fun keywordLoop :: "string \<Rightarrow> string list \<Rightarrow> rat \<times> nat \<Rightarrow> rat \<times> nat" where
  "keywordLoop toolText [] (matchScore, matchCount) = (matchScore, matchCount)"
| "keywordLoop toolText (keyword # rest) (matchScore, matchCount) =
     (let keywordLower = toLowerCase keyword in
      if str_includes toolText keywordLower
      then keywordLoop toolText rest (matchScore + 1.0, matchCount + 1)
      else if str_includes toolText
                (substring0 keywordLower (max 4 (int (length keywordLower) - 2)))
      then keywordLoop toolText rest (matchScore + 0.7, matchCount + 1)
      else keywordLoop toolText rest (matchScore, matchCount))"

text \<open>The value of \<open>matchScore\<close> when the function reaches its \<open>return\<close>: the awards of
  the loop, and the bonus when the prompt holds the tool's name.\<close>

definition keywordMatchScore :: "IMCPTool \<Rightarrow> string list \<Rightarrow> string \<Rightarrow> rat" where
  "keywordMatchScore t keywords prompt =
     (let toolText = keywordToolText t;
          promptLower = toLowerCase prompt;
          matchScore = fst (keywordLoop toolText keywords (0, 0))
      in if str_includes promptLower (toLowerCase (name t)) then matchScore + 1.0
         else matchScore)"

definition calculateKeywordMatch :: "IMCPTool \<Rightarrow> string list \<Rightarrow> string \<Rightarrow> rat" where
  "calculateKeywordMatch t keywords prompt =
     (if length keywords = 0 then 0
      else if length keywords > 0
      then min (keywordMatchScore t keywords prompt / of_nat (length keywords)) 1.0
      else 0)"

subsection \<open>calculateDomainRelevance\<close>

definition domainToolText :: "IMCPTool \<Rightarrow> string" where
  "domainToolText t = toLowerCase (join '' '' [name t, descriptionOrEmpty t])"

text \<open>
  The names of the members of \<open>Object.prototype\<close> (ECMAScript, with its Annex B). The
  table of weights is built by an object literal with spreads, so it inherits them; each is
  a function, or for \<open>__proto__\<close> the prototype object itself: truthy, and not a number.
\<close>

definition objectPrototypeKeys :: "string list" where
  "objectPrototypeKeys =
     [''constructor'', ''hasOwnProperty'', ''isPrototypeOf'', ''propertyIsEnumerable'',
      ''toLocaleString'', ''toString'', ''valueOf'', ''__proto__'', ''__defineGetter__'',
      ''__defineSetter__'', ''__lookupGetter__'', ''__lookupSetter__'']"

text \<open>
  \<open>domainWeights[domain] || 0.5\<close>: a weight of the table's own, \<open>0.5\<close> for an own
  weight \<open>0\<close> and for a key found nowhere, and the inherited member for a key that only
  \<open>Object.prototype\<close> holds.
\<close>

datatype weight = Weight rat | InheritedMember

definition weightOf :: "(string \<rightharpoonup> rat) \<Rightarrow> string \<Rightarrow> weight" where
  "weightOf weightTable domain =
     (case weightTable domain of
        Some w \<Rightarrow> if w = 0 then Weight 0.5 else Weight w
      | None \<Rightarrow> if domain \<in> set objectPrototypeKeys then InheritedMember else Weight 0.5)"

text \<open>
  The variable \<open>totalRelevance\<close>: a number, until \<open>+=\<close> adds a member that is no
  number; from then on it is a string (the digits of the number followed by the text of
  the member), and every later \<open>+=\<close> appends to the string.
\<close>

datatype total = Total rat | Text

fun addWeight :: "total \<Rightarrow> weight \<Rightarrow> total" where
  "addWeight (Total r) (Weight w) = Total (r + w)"
| "addWeight _ _ = Text"

text \<open>The loop over the domains; the pair is \<open>(totalRelevance, matchCount)\<close>.\<close>

fun domainLoop ::
    "string \<Rightarrow> (string \<rightharpoonup> rat) \<Rightarrow> string list \<Rightarrow> total \<times> nat \<Rightarrow> total \<times> nat" where
  "domainLoop toolText weightTable [] (totalRelevance, matchCount) = (totalRelevance, matchCount)"
| "domainLoop toolText weightTable (domain # rest) (totalRelevance, matchCount) =
     (let weight = weightOf weightTable domain in
      if str_includes toolText (toLowerCase domain)
      then domainLoop toolText weightTable rest (addWeight totalRelevance weight, matchCount + 1)
      else domainLoop toolText weightTable rest (totalRelevance, matchCount))"

text \<open>\<open>totalRelevance / matchCount\<close>: the string is no numeral, so its quotient is
  \<open>NaN\<close>.\<close>

fun divideTotal :: "total \<Rightarrow> nat \<Rightarrow> js_number" where
  "divideTotal (Total r) n = Num (r / of_nat n)"
| "divideTotal Text n = NaN"

definition calculateDomainRelevance ::
    "IMCPTool \<Rightarrow> string list \<Rightarrow> (string \<rightharpoonup> rat) \<Rightarrow> js_number" where
  "calculateDomainRelevance t domainList weightTable =
     (if length domainList = 0 then Num 0.5
      else case domainLoop (domainToolText t) weightTable domainList (Total 0, 0) of
             (totalRelevance, matchCount) \<Rightarrow>
               if matchCount > 0 then divideTotal totalRelevance matchCount else Num 0)"

subsection \<open>calculateTypeRelevance\<close>

fun typeLoop :: "string \<Rightarrow> string \<Rightarrow> string list \<Rightarrow> rat \<Rightarrow> rat" where
  "typeLoop toolName toolDesc [] maxRelevance = maxRelevance"
| "typeLoop toolName toolDesc (action # rest) maxRelevance =
     typeLoop toolName toolDesc rest
       (if str_includes toolName action \<or> str_includes toolDesc action
        then max maxRelevance 1.0 else maxRelevance)"

definition calculateTypeRelevance :: "IMCPTool \<Rightarrow> intent_type \<Rightarrow> rat" where
  "calculateTypeRelevance t intentType =
     (let expectedActions = expectedActionsOf intentType in
      if length expectedActions = 0 then 0.5
      else let maxRelevance =
                 typeLoop (toLowerCase (name t)) (toLowerCase (descriptionOrEmpty t))
                   expectedActions 0
           in if maxRelevance = 0 then 0.3 else maxRelevance)"

subsection \<open>calculateActionMatch\<close>

text \<open>The inner loop over the verbs of one category.\<close>

fun actionLoop :: "string \<Rightarrow> string \<Rightarrow> string list \<Rightarrow> rat \<Rightarrow> rat" where
  "actionLoop toolName promptLower [] matchScore = matchScore"
| "actionLoop toolName promptLower (action # rest) matchScore =
     actionLoop toolName promptLower rest
       (if str_includes toolName action
        then (if str_includes promptLower action then max matchScore 1.0
              else max matchScore 0.6)
        else matchScore)"

text \<open>The outer loop over \<open>Object.entries(this.actionPatterns)\<close>.\<close>

fun categoryLoop :: "string \<Rightarrow> string \<Rightarrow> (string \<times> string list) list \<Rightarrow> rat \<Rightarrow> rat" where
  "categoryLoop toolName promptLower [] matchScore = matchScore"
| "categoryLoop toolName promptLower ((category, actions) # rest) matchScore =
     categoryLoop toolName promptLower rest (actionLoop toolName promptLower actions matchScore)"

text \<open>The second loop, over the verbs expected for the intent's type.\<close>

fun intentActionLoop :: "string \<Rightarrow> string list \<Rightarrow> rat \<Rightarrow> rat" where
  "intentActionLoop toolName [] matchScore = matchScore"
| "intentActionLoop toolName (action # rest) matchScore =
     intentActionLoop toolName rest
       (if str_includes toolName action then max matchScore 0.8 else matchScore)"

definition calculateActionMatch :: "IMCPTool \<Rightarrow> intent_type \<Rightarrow> string \<Rightarrow> rat" where
  "calculateActionMatch t intentType prompt =
     (let toolName = toLowerCase (name t);
          promptLower = toLowerCase prompt;
          matchScore = categoryLoop toolName promptLower actionPatterns 0
      in intentActionLoop toolName (expectedActionsOf intentType) matchScore)"

subsection \<open>generateReasoningExplanation\<close>

text \<open>\<open>Math.round\<close> rounds to the nearest integer, a half upwards; a template literal
  prints an integer in decimal.\<close>

definition mathRound :: "rat \<Rightarrow> int" where
  "mathRound x = \<lfloor>x + 1 / 2\<rfloor>"

fun showNat :: "nat \<Rightarrow> string" where
  "showNat n =
     (if n < 10 then [''0123456789'' ! n]
      else showNat (n div 10) @ [''0123456789'' ! (n mod 10)])"

definition showInt :: "int \<Rightarrow> string" where
  "showInt i = (if i < 0 then ''-'' @ showNat (nat (- i)) else showNat (nat i))"

fun intentTypeName :: "intent_type \<Rightarrow> string" where
  "intentTypeName coding = ''coding''"
| "intentTypeName documentation = ''documentation''"
| "intentTypeName debugging = ''debugging''"
| "intentTypeName explanation = ''explanation''"
| "intentTypeName generation = ''generation''"
| "intentTypeName completion = ''completion''"

definition generateReasoningExplanation ::
    "js_number score_components \<Rightarrow> IMCPTool \<Rightarrow> IUserIntent \<Rightarrow> string" where
  "generateReasoningExplanation c t intent =
     (let r0 = [];
          r1 = (if keywordMatch c > 0.7
                then r0 @ [''Strong keyword match ('' @ showInt (mathRound (keywordMatch c * 100))
                           @ ''%)'']
                else r0);
          r2 = (if js_gt (domainRelevance c) 0.7
                then r1 @ [''Highly relevant to '' @ join '', '' (domains intent) @ '' domains'']
                else r1);
          r3 = (if typeRelevance c > 0.7
                then r2 @ [''Well-suited for '' @ intentTypeName (type intent) @ '' tasks'']
                else r2);
          r4 = (if actionMatch c > 0.7 then r3 @ [''Action matches user intent''] else r3);
          reasons = (if length r4 = 0 then r4 @ [''General utility tool''] else r4)
      in join ''; '' reasons)"

subsection \<open>calculateToolScore\<close>

text \<open>The object the function returns; \<open>'n\<close> is the type of the aggregate and of
  \<open>domainRelevance\<close>, as for \<open>score_components\<close>.\<close>

record 'n tool_score_result =
  score :: 'n
  components :: "'n score_components"
  reasoning :: string

text \<open>The keys of the object \<open>components\<close>; \<open>entries\<close> is \<open>Object.entries(components)\<close>,
  in the order the literal declares them, and \<open>weights\<close> the literal of that name.\<close>

datatype component_key = KeywordMatch | DomainRelevance | TypeRelevance | ActionMatch

definition entries :: "js_number score_components \<Rightarrow> (component_key \<times> js_number) list" where
  "entries c =
     [(KeywordMatch, Num (keywordMatch c)), (DomainRelevance, domainRelevance c),
      (TypeRelevance, Num (typeRelevance c)), (ActionMatch, Num (actionMatch c))]"

fun weights :: "component_key \<Rightarrow> rat" where
  "weights KeywordMatch = 0.35"
| "weights DomainRelevance = 0.25"
| "weights TypeRelevance = 0.20"
| "weights ActionMatch = 0.20"

definition calculateToolScore ::
    "IMCPTool \<Rightarrow> IUserIntent \<Rightarrow> string \<Rightarrow> (string \<rightharpoonup> rat) \<Rightarrow> js_number tool_score_result" where
  "calculateToolScore t intent prompt weightTable =
     (let c = \<lparr>keywordMatch = calculateKeywordMatch t (keywords' intent) prompt,
               domainRelevance = calculateDomainRelevance t (domains intent) weightTable,
               typeRelevance = calculateTypeRelevance t (type intent),
               actionMatch = calculateActionMatch t (type intent) prompt\<rparr>;
          s = foldl (\<lambda>acc (component, v). js_add acc (js_mul (Num (weights component)) v))
                (Num 0) (entries c)
      in \<lparr>score = s, components = c, reasoning = generateReasoningExplanation c t intent\<rparr>)"

subsection \<open>scoreTools\<close>

text \<open>An \<open>IToolScore\<close> carries the three fields of the result of \<open>calculateToolScore\<close>
  and the tool with the name of its server. Its numbers are rationals: \<open>scoreTools\<close>
  pushes an entry only when its aggregate passes \<open>>=\<close>, which \<open>NaN\<close> does not.\<close>

record IToolScore = "rat tool_score_result" +
  tool :: IMCPTool
  serverName :: string

text \<open>\<open>{ ...this.defaultDomainWeights, ...(params.domainWeights || {}) }\<close>: the entries of
  the caller win.\<close>

definition mergedDomainWeights :: "IEnhancedMCPProviderParams \<Rightarrow> (string \<rightharpoonup> rat)" where
  "mergedDomainWeights params =
     map_of defaultDomainWeights ++
       (case domainWeights params of None \<Rightarrow> Map.empty | Some overrides \<Rightarrow> overrides)"

text \<open>\<open>params.toolRelevanceThreshold || 0.3\<close>.\<close>

definition relevanceThresholdOf :: "IEnhancedMCPProviderParams \<Rightarrow> rat" where
  "relevanceThresholdOf params =
     (case toolRelevanceThreshold params of
        None \<Rightarrow> 0.3
      | Some th \<Rightarrow> if th = 0 then 0.3 else th)"

text \<open>
  The loop over the tools, pushing onto \<open>scoredTools\<close>. \<open>score.score >=
  relevanceThreshold\<close> is false for \<open>NaN\<close>. The aggregate is \<open>NaN\<close> exactly when
  \<open>domainRelevance\<close> is (lemmas \<open>score_NaN_iff\<close> and
  \<open>score_Num_domainRelevance\<close>), so the inner \<open>NaN\<close> branch is never taken and
  the entry pushed holds the numbers of the result.
\<close>

fun scoreLoop ::
    "IUserIntent \<Rightarrow> string \<Rightarrow> (string \<rightharpoonup> rat) \<Rightarrow> rat \<Rightarrow> (IMCPTool \<times> string) list \<Rightarrow>
     IToolScore list \<Rightarrow> IToolScore list" where
  "scoreLoop intent prompt weightTable relevanceThreshold [] scoredTools = scoredTools"
| "scoreLoop intent prompt weightTable relevanceThreshold ((t, server) # rest) scoredTools =
     (let s = calculateToolScore t intent prompt weightTable in
      case score s of
        NaN \<Rightarrow> scoreLoop intent prompt weightTable relevanceThreshold rest scoredTools
      | Num aggregate \<Rightarrow>
          if aggregate \<ge> relevanceThreshold
          then (case domainRelevance (components s) of
                  Num d \<Rightarrow>
                    scoreLoop intent prompt weightTable relevanceThreshold rest
                      (scoredTools @
                         [\<lparr>score = aggregate,
                           components =
                             \<lparr>keywordMatch = keywordMatch (components s),
                              domainRelevance = d,
                              typeRelevance = typeRelevance (components s),
                              actionMatch = actionMatch (components s)\<rparr>,
                           reasoning = reasoning s,
                           tool = t, serverName = server\<rparr>])
                | NaN \<Rightarrow> scoreLoop intent prompt weightTable relevanceThreshold rest scoredTools)
          else scoreLoop intent prompt weightTable relevanceThreshold rest scoredTools)"

text \<open>\<open>xs.sort((a, b) => b.score - a.score)\<close>: a stable sort, the larger score first.\<close>

definition sortByScore :: "IToolScore list \<Rightarrow> IToolScore list" where
  "sortByScore xs = sort_key (\<lambda>a. - score a) xs"

definition scoreTools ::
    "(IMCPTool \<times> string) list \<Rightarrow> IUserIntent \<Rightarrow> string \<Rightarrow> IEnhancedMCPProviderParams \<Rightarrow>
     IToolScore list" where
  "scoreTools tools intent prompt params =
     (let weightTable = mergedDomainWeights params;
          relevanceThreshold = relevanceThresholdOf params
      in sortByScore (scoreLoop intent prompt weightTable relevanceThreshold tools []))"

subsection \<open>The selection strategies\<close>

definition selectByScore :: "IToolScore list \<Rightarrow> nat \<Rightarrow> IToolScore list" where
  "selectByScore tools maxTools = take maxTools (sortByScore tools)"

definition semanticScore :: "IToolScore \<Rightarrow> rat" where
  "semanticScore a =
     (keywordMatch (components a) + domainRelevance (components a) + actionMatch (components a)) / 3"

definition selectBySemantic :: "IToolScore list \<Rightarrow> nat \<Rightarrow> IToolScore list" where
  "selectBySemantic tools maxTools = take maxTools (sort_key (\<lambda>a. - semanticScore a) tools)"

text \<open>\<open>inferToolCategory\<close>: the first category of the table one of whose verbs occurs in
  the lower-case name.\<close>

fun inferLoop :: "string \<Rightarrow> (string \<times> string list) list \<Rightarrow> string" where
  "inferLoop toolName [] = ''general''"
| "inferLoop toolName ((category, actions) # rest) =
     (if list_ex (\<lambda>action. str_includes toolName action) actions then category
      else inferLoop toolName rest)"

definition inferToolCategory :: "IMCPTool \<Rightarrow> string" where
  "inferToolCategory t = inferLoop (toLowerCase (name t)) actionPatterns"

text \<open>\<open>selectByHybrid\<close>: the state of the loop is the list \<open>selected\<close> and the two
  \<open>Map\<close>s of counters; \<open>counts.get(k) || 0\<close> reads a counter.\<close>

record hybrid_state =
  selected :: "IToolScore list"
  serverCounts :: "string \<rightharpoonup> nat"
  categoryCounts :: "string \<rightharpoonup> nat"

definition getCount :: "(string \<rightharpoonup> nat) \<Rightarrow> string \<Rightarrow> nat" where
  "getCount counts k = (case counts k of None \<Rightarrow> 0 | Some n \<Rightarrow> n)"

definition diversityPenalty :: "nat \<Rightarrow> nat \<Rightarrow> rat" where
  "diversityPenalty serverCount categoryCount =
     min (of_nat serverCount * 0.05) 0.2 + min (of_nat categoryCount * 0.1) 0.3"

fun hybridLoop :: "nat \<Rightarrow> IToolScore list \<Rightarrow> hybrid_state \<Rightarrow> hybrid_state" where
  "hybridLoop maxTools [] st = st"
| "hybridLoop maxTools (toolScore # rest) st =
     (if length (selected st) \<ge> maxTools then st
      else
        let serverCount = getCount (serverCounts st) (serverName toolScore);
            category = inferToolCategory (tool toolScore);
            categoryCount = getCount (categoryCounts st) category;
            adjustedScore = score toolScore * (1 - diversityPenalty serverCount categoryCount)
        in if adjustedScore > 0.15
           then hybridLoop maxTools rest
                  \<lparr>selected = selected st @ [toolScore],
                   serverCounts = (serverCounts st)(serverName toolScore \<mapsto> serverCount + 1),
                   categoryCounts = (categoryCounts st)(category \<mapsto> categoryCount + 1)\<rparr>
           else hybridLoop maxTools rest st)"

definition selectByHybrid :: "IToolScore list \<Rightarrow> nat \<Rightarrow> IToolScore list" where
  "selectByHybrid tools maxTools =
     selected (hybridLoop maxTools tools
       \<lparr>selected = [], serverCounts = Map.empty, categoryCounts = Map.empty\<rparr>)"

text \<open>\<open>selectTools\<close>: an argument left out is \<open>None\<close> and takes its default; the tag is
  the string the \<open>switch\<close> compares.\<close>

definition selectTools :: "IToolScore list \<Rightarrow> nat option \<Rightarrow> string option \<Rightarrow> IToolScore list" where
  "selectTools scoredTools maxToolsArg strategyArg =
     (let maxTools = (case maxToolsArg of None \<Rightarrow> 15 | Some n \<Rightarrow> n);
          strategy = (case strategyArg of None \<Rightarrow> ''hybrid'' | Some s \<Rightarrow> s)
      in if strategy = ''priority'' then selectByScore scoredTools maxTools
         else if strategy = ''semantic'' then selectBySemantic scoredTools maxTools
         else if strategy = ''hybrid'' then selectByHybrid scoredTools maxTools
         else take maxTools scoredTools)"

subsection \<open>The adjusted score, as the specification words it\<close>

text \<open>
  The specification describes the adjusted score of a candidate \<open>e\<close> by the items
  accepted before it: the aggregate, times one minus the penalty, where the two counts are
  the numbers of accepted items with the candidate's source and with its inferred
  category. This definition follows those words; the theorems compare it with the
  variable \<open>adjustedScore\<close> that the loop computes from its two \<open>Map\<close>s.
\<close>

definition spec_adjustedScore :: "IToolScore list \<Rightarrow> IToolScore \<Rightarrow> rat" where
  "spec_adjustedScore accepted e =
     (let sourceCount = length (filter (\<lambda>a. serverName a = serverName e) accepted);
          categoryCount =
            length (filter (\<lambda>a. inferToolCategory (tool a) = inferToolCategory (tool e)) accepted)
      in score e *
           (1 - (min (of_nat sourceCount * 0.05) 0.2 + min (of_nat categoryCount * 0.10) 0.3)))"

subsection \<open>Inputs of the scenarios\<close>

text \<open>\<open>params = {}\<close>: the default configuration.\<close>

definition defaultParams :: IEnhancedMCPProviderParams where
  "defaultParams = \<lparr>domainWeights = None, toolRelevanceThreshold = None\<rparr>"

definition compile_tool :: IMCPTool where
  "compile_tool =
     \<lparr>name = ''compile_contract'', description = Some ''Compiles solidity contracts'',
      inputSchema = []\<rparr>"

definition compile_intent :: IUserIntent where
  "compile_intent = \<lparr>type = coding, keywords' = [''compile''], domains = [''solidity'']\<rparr>"

definition compile_prompt :: string where
  "compile_prompt = ''please compile my contract''"

definition unrelated_tool :: IMCPTool where
  "unrelated_tool = \<lparr>name = ''unrelated_tool'', description = Some [], inputSchema = []\<rparr>"

definition unrelated_intent :: IUserIntent where
  "unrelated_intent = \<lparr>type = coding, keywords' = [''foobar''], domains = []\<rparr>"

definition build_tool :: IMCPTool where
  "build_tool =
     \<lparr>name = ''build_project'', description = Some ''Builds the solidity project'',
      inputSchema = []\<rparr>"

text \<open>A tool whose name holds \<open>constructor\<close>, and an intent with that domain: the table
  of weights has no such key of its own.\<close>

definition constructor_tool :: IMCPTool where
  "constructor_tool =
     \<lparr>name = ''constructor_compile'', description = None, inputSchema = []\<rparr>"

definition constructor_intent :: IUserIntent where
  "constructor_intent =
     \<lparr>type = coding, keywords' = [''compile''], domains = [''constructor'']\<rparr>"

text \<open>A scored entry with a given tool name, server and aggregate (the components and the
  reasoning play no part in the selection by \<open>hybrid\<close>).\<close>

definition scored :: "string \<Rightarrow> string \<Rightarrow> rat \<Rightarrow> IToolScore" where
  "scored toolName server s =
     \<lparr>score = s,
      components = \<lparr>keywordMatch = 0, domainRelevance = 0, typeRelevance = 0, actionMatch = 0\<rparr>,
      reasoning = [],
      tool = \<lparr>name = toolName, description = None, inputSchema = []\<rparr>,
      serverName = server\<rparr>"

section \<open>Properties of the scorer\<close>

subsection \<open>The aggregate and the output of scoreTools\<close>

lemma calculateToolScore_score:
  "score (calculateToolScore t intent prompt wt) =
     (case domainRelevance (components (calculateToolScore t intent prompt wt)) of
        Num d \<Rightarrow>
          Num (0.35 * keywordMatch (components (calculateToolScore t intent prompt wt))
             + 0.25 * d
             + 0.20 * typeRelevance (components (calculateToolScore t intent prompt wt))
             + 0.20 * actionMatch (components (calculateToolScore t intent prompt wt)))
      | NaN \<Rightarrow> NaN)"
  by (simp add: calculateToolScore_def entries_def Let_def split: js_number.splits)

lemma score_NaN_iff:
  "score (calculateToolScore t intent prompt wt) = NaN \<longleftrightarrow>
   domainRelevance (components (calculateToolScore t intent prompt wt)) = NaN"
  by (simp add: calculateToolScore_score split: js_number.splits)

lemma score_Num_domainRelevance:
  "score (calculateToolScore t intent prompt wt) = Num s \<Longrightarrow>
   \<exists>d. domainRelevance (components (calculateToolScore t intent prompt wt)) = Num d"
  using score_NaN_iff[of t intent prompt wt]
  by (cases "domainRelevance (components (calculateToolScore t intent prompt wt))") simp_all

lemma scoreLoop_set:
  "e \<in> set (scoreLoop intent prompt wt thr tools acc) \<Longrightarrow>
     e \<in> set acc \<or>
     (\<exists>t server. (t, server) \<in> set tools \<and>
        thr \<le> score e \<and>
        score (calculateToolScore t intent prompt wt) = Num (score e) \<and>
        domainRelevance (components (calculateToolScore t intent prompt wt))
          = Num (domainRelevance (components e)) \<and>
        keywordMatch (components e) = keywordMatch (components (calculateToolScore t intent prompt wt)) \<and>
        typeRelevance (components e) = typeRelevance (components (calculateToolScore t intent prompt wt)) \<and>
        actionMatch (components e) = actionMatch (components (calculateToolScore t intent prompt wt)) \<and>
        reasoning e = reasoning (calculateToolScore t intent prompt wt) \<and>
        tool e = t \<and> serverName e = server)"
proof (induction tools arbitrary: acc)
  case Nil
  then show ?case by simp
next
  case (Cons p rest)
  obtain t server where p: "p = (t, server)" by (cases p)
  let ?r = "calculateToolScore t intent prompt wt"
  let ?skip = "e \<in> set (scoreLoop intent prompt wt thr rest acc)"
  show ?case
  proof (cases "\<exists>s d. score ?r = Num s \<and> thr \<le> s \<and> domainRelevance (components ?r) = Num d")
    case True
    then obtain s d where sd: "score ?r = Num s" "thr \<le> s" "domainRelevance (components ?r) = Num d"
      by blast
    let ?new = "\<lparr>score = s,
                 components = \<lparr>keywordMatch = keywordMatch (components ?r), domainRelevance = d,
                               typeRelevance = typeRelevance (components ?r),
                               actionMatch = actionMatch (components ?r)\<rparr>,
                 reasoning = reasoning ?r, tool = t, serverName = server\<rparr>"
    from Cons.prems p sd have "e \<in> set (scoreLoop intent prompt wt thr rest (acc @ [?new]))"
      by (simp add: Let_def)
    from Cons.IH[OF this] have "e \<in> set acc \<or> e = ?new \<or>
       (\<exists>t server. (t, server) \<in> set rest \<and>
        thr \<le> score e \<and>
        score (calculateToolScore t intent prompt wt) = Num (score e) \<and>
        domainRelevance (components (calculateToolScore t intent prompt wt))
          = Num (domainRelevance (components e)) \<and>
        keywordMatch (components e) = keywordMatch (components (calculateToolScore t intent prompt wt)) \<and>
        typeRelevance (components e) = typeRelevance (components (calculateToolScore t intent prompt wt)) \<and>
        actionMatch (components e) = actionMatch (components (calculateToolScore t intent prompt wt)) \<and>
        reasoning e = reasoning (calculateToolScore t intent prompt wt) \<and>
        tool e = t \<and> serverName e = server)"
      by auto
    then show ?thesis
    proof (elim disjE)
      assume "e \<in> set acc"
      then show ?thesis by simp
    next
      assume "e = ?new"
      with sd p show ?thesis by auto
    next
      assume "\<exists>t server. (t, server) \<in> set rest \<and>
        thr \<le> score e \<and>
        score (calculateToolScore t intent prompt wt) = Num (score e) \<and>
        domainRelevance (components (calculateToolScore t intent prompt wt))
          = Num (domainRelevance (components e)) \<and>
        keywordMatch (components e) = keywordMatch (components (calculateToolScore t intent prompt wt)) \<and>
        typeRelevance (components e) = typeRelevance (components (calculateToolScore t intent prompt wt)) \<and>
        actionMatch (components e) = actionMatch (components (calculateToolScore t intent prompt wt)) \<and>
        reasoning e = reasoning (calculateToolScore t intent prompt wt) \<and>
        tool e = t \<and> serverName e = server"
      then show ?thesis by auto
    qed
  next
    case False
    with Cons.prems p have ?skip
      by (auto simp: Let_def split: js_number.splits if_splits)
    from Cons.IH[OF this] show ?thesis by auto
  qed
qed

lemma set_sortByScore: "set (sortByScore xs) = set xs"
  by (simp add: sortByScore_def)

lemma sorted_sortByScore: "sorted_wrt (\<lambda>a b. score b \<le> score a) (sortByScore xs)"
proof -
  have "sorted (map (\<lambda>a. - score a) (sortByScore xs))"
    by (simp add: sortByScore_def)
  then show ?thesis by (simp add: sorted_map)
qed

lemma scoreTools_set:
  assumes "e \<in> set (scoreTools tools intent prompt params)"
  shows "\<exists>t server. (t, server) \<in> set tools \<and>
        relevanceThresholdOf params \<le> score e \<and>
        score (calculateToolScore t intent prompt (mergedDomainWeights params)) = Num (score e) \<and>
        domainRelevance (components (calculateToolScore t intent prompt (mergedDomainWeights params)))
          = Num (domainRelevance (components e)) \<and>
        keywordMatch (components e)
          = keywordMatch (components (calculateToolScore t intent prompt (mergedDomainWeights params))) \<and>
        typeRelevance (components e)
          = typeRelevance (components (calculateToolScore t intent prompt (mergedDomainWeights params))) \<and>
        actionMatch (components e)
          = actionMatch (components (calculateToolScore t intent prompt (mergedDomainWeights params))) \<and>
        reasoning e = reasoning (calculateToolScore t intent prompt (mergedDomainWeights params)) \<and>
        tool e = t \<and> serverName e = server"
proof -
  from assms have "e \<in> set (scoreLoop intent prompt (mergedDomainWeights params)
      (relevanceThresholdOf params) tools [])"
    by (simp add: scoreTools_def Let_def set_sortByScore)
  from scoreLoop_set[OF this] show ?thesis by simp
qed

lemma relevanceThresholdOf_ge:
  "(case toolRelevanceThreshold params of None \<Rightarrow> 0.3 | Some th \<Rightarrow> th) \<le> relevanceThresholdOf params"
  by (simp add: relevanceThresholdOf_def split: option.splits)

subsection \<open>The four components\<close>

lemma keywordLoop_nonneg:
  "0 \<le> ms \<Longrightarrow> 0 \<le> fst (keywordLoop toolText kws (ms, mc))"
  by (induction kws arbitrary: ms mc) (simp_all add: Let_def)

lemma keywordMatchScore_nonneg: "0 \<le> keywordMatchScore t kws prompt"
proof -
  have "0 \<le> fst (keywordLoop (keywordToolText t) kws (0, 0))"
    by (rule keywordLoop_nonneg) simp
  then show ?thesis by (simp add: keywordMatchScore_def Let_def)
qed

lemma calculateKeywordMatch_range:
  "0 \<le> calculateKeywordMatch t kws prompt \<and> calculateKeywordMatch t kws prompt \<le> 1"
  using keywordMatchScore_nonneg[of t kws prompt]
  by (simp add: calculateKeywordMatch_def)

lemma weightOf_range:
  assumes "\<forall>d w. wt d = Some w \<longrightarrow> 0 \<le> w \<and> w \<le> 1"
      and "weightOf wt d = Weight w"
  shows "0 \<le> w \<and> w \<le> 1"
  using assms by (auto simp: weightOf_def split: option.splits if_splits)

lemma domainLoop_Text:
  "fst (domainLoop toolText wt ds (Text, mc)) = Text"
  by (induction ds arbitrary: mc) (simp_all add: Let_def)

lemma domainLoop_count:
  "snd (domainLoop toolText wt ds (tot, mc)) =
     mc + length (filter (\<lambda>d. str_includes toolText (toLowerCase d)) ds)"
  by (induction ds arbitrary: tot mc) (simp_all add: Let_def)

lemma domainLoop_Text_iff:
  "fst (domainLoop toolText wt ds (Total r, mc)) = Text \<longleftrightarrow>
     list_ex (\<lambda>d. str_includes toolText (toLowerCase d) \<and> weightOf wt d = InheritedMember) ds"
proof (induction ds arbitrary: r mc)
  case Nil
  then show ?case by simp
next
  case (Cons d ds)
  show ?case
  proof (cases "str_includes toolText (toLowerCase d)")
    case False
    then show ?thesis using Cons.IH by (simp add: Let_def)
  next
    case True
    show ?thesis
    proof (cases "weightOf wt d")
      case (Weight w)
      with True Cons.IH show ?thesis by (simp add: Let_def)
    next
      case InheritedMember
      with True show ?thesis by (simp add: Let_def domainLoop_Text)
    qed
  qed
qed

lemma domainLoop_range:
  assumes wt: "\<forall>d w. wt d = Some w \<longrightarrow> 0 \<le> w \<and> w \<le> 1"
  shows "0 \<le> tr \<Longrightarrow> tr \<le> of_nat mc \<Longrightarrow>
         domainLoop toolText wt ds (Total tr, mc) = (Total tr', mc') \<Longrightarrow>
         0 \<le> tr' \<and> tr' \<le> of_nat mc'"
proof (induction ds arbitrary: tr mc)
  case Nil
  then show ?case by simp
next
  case (Cons d ds)
  show ?case
  proof (cases "str_includes toolText (toLowerCase d)")
    case False
    with Cons.prems have "domainLoop toolText wt ds (Total tr, mc) = (Total tr', mc')"
      by (simp add: Let_def)
    with Cons.prems Cons.IH show ?thesis by blast
  next
    case True
    show ?thesis
    proof (cases "weightOf wt d")
      case InheritedMember
      with True Cons.prems have "domainLoop toolText wt ds (Text, mc + 1) = (Total tr', mc')"
        by (simp add: Let_def)
      then have "fst (domainLoop toolText wt ds (Text, mc + 1)) = Total tr'" by simp
      then show ?thesis by (simp add: domainLoop_Text)
    next
      case (Weight w)
      have w: "0 \<le> w" "w \<le> 1"
        using weightOf_range[OF wt Weight] by simp_all
      from True Weight Cons.prems
      have "domainLoop toolText wt ds (Total (tr + w), mc + 1) = (Total tr', mc')"
        by (simp add: Let_def)
      moreover have "0 \<le> tr + w" using Cons.prems w by simp
      moreover have "tr + w \<le> of_nat (mc + 1)" using Cons.prems w by simp
      ultimately show ?thesis using Cons.IH by blast
    qed
  qed
qed

lemma calculateDomainRelevance_range:
  assumes wt: "\<forall>d w. wt d = Some w \<longrightarrow> 0 \<le> w \<and> w \<le> 1"
      and res: "calculateDomainRelevance t ds wt = Num x"
  shows "0 \<le> x \<and> x \<le> 1"
proof (cases "ds = []")
  case True
  with res show ?thesis by (simp add: calculateDomainRelevance_def)
next
  case False
  obtain tot mc where l: "domainLoop (domainToolText t) wt ds (Total 0, 0) = (tot, mc)"
    by (cases "domainLoop (domainToolText t) wt ds (Total 0, 0)")
  show ?thesis
  proof (cases "mc > 0")
    case F: False
    with False l res show ?thesis by (simp add: calculateDomainRelevance_def)
  next
    case True
    with False l res have d: "divideTotal tot mc = Num x"
      by (simp add: calculateDomainRelevance_def)
    then obtain tr where tot: "tot = Total tr" and x: "x = tr / of_nat mc"
      by (cases tot) simp_all
    have r: "0 \<le> tr \<and> tr \<le> of_nat mc"
      by (rule domainLoop_range[OF wt _ _ l[unfolded tot]]) simp_all
    with True show ?thesis unfolding x
      by (simp add: divide_le_eq)
  qed
qed

text \<open>\<open>domainRelevance\<close> is \<open>NaN\<close> exactly when a domain that matches the text is a key
  that only \<open>Object.prototype\<close> holds.\<close>

lemma calculateDomainRelevance_NaN_iff:
  "calculateDomainRelevance t ds wt = NaN \<longleftrightarrow>
     list_ex (\<lambda>d. str_includes (domainToolText t) (toLowerCase d)
                 \<and> weightOf wt d = InheritedMember) ds"
proof (cases "ds = []")
  case True
  then show ?thesis by (simp add: calculateDomainRelevance_def)
next
  case False
  let ?match = "\<lambda>d. str_includes (domainToolText t) (toLowerCase d)"
  let ?bad = "\<lambda>d. ?match d \<and> weightOf wt d = InheritedMember"
  obtain tot mc where l: "domainLoop (domainToolText t) wt ds (Total 0, 0) = (tot, mc)"
    by (cases "domainLoop (domainToolText t) wt ds (Total 0, 0)")
  have mc: "mc = length (filter ?match ds)"
    using domainLoop_count[of "domainToolText t" wt ds "Total 0" 0] l by simp
  have tot: "tot = Text \<longleftrightarrow> list_ex ?bad ds"
    using domainLoop_Text_iff[of "domainToolText t" wt ds 0 0] l by simp
  have pos: "list_ex ?bad ds \<Longrightarrow> mc > 0"
    unfolding mc by (auto simp: list_ex_iff filter_empty_conv)
  show ?thesis
  proof (cases "list_ex ?bad ds")
    case True
    with tot pos False l show ?thesis
      by (simp add: calculateDomainRelevance_def)
  next
    case F: False
    with tot obtain r where "tot = Total r" by (cases tot) simp_all
    with F False l show ?thesis
      by (simp add: calculateDomainRelevance_def)
  qed
qed

lemma typeLoop_closed:
  "0 \<le> m \<Longrightarrow> typeLoop tn td acts m =
     max m (if list_ex (\<lambda>a. str_includes tn a \<or> str_includes td a) acts then 1 else 0)"
proof (induction acts arbitrary: m)
  case Nil
  then show ?case by simp
next
  case (Cons a acts)
  have "0 \<le> (if str_includes tn a \<or> str_includes td a then max m 1.0 else m)"
    using Cons.prems by (simp add: max_def)
  from Cons.IH[OF this] Cons.prems show ?case
    by (simp add: max_def)
qed

lemma calculateTypeRelevance_range:
  "0 \<le> calculateTypeRelevance t ty \<and> calculateTypeRelevance t ty \<le> 1"
  by (simp add: calculateTypeRelevance_def Let_def typeLoop_closed)

lemma pass_append:
  "(if list_ex P (xs @ ys) then (1::rat) else if list_ex Q (xs @ ys) then 0.6 else 0) =
     max (if list_ex P xs then 1 else if list_ex Q xs then 0.6 else 0)
         (if list_ex P ys then 1 else if list_ex Q ys then 0.6 else 0)"
  by (simp add: max_def)

lemma actionLoop_closed:
  "0 \<le> m \<Longrightarrow> actionLoop tn pl acts m =
     max m (if list_ex (\<lambda>a. str_includes tn a \<and> str_includes pl a) acts then 1
            else if list_ex (\<lambda>a. str_includes tn a) acts then 0.6 else 0)"
proof (induction acts arbitrary: m)
  case Nil
  then show ?case by simp
next
  case (Cons a acts)
  have "0 \<le> (if str_includes tn a
        then (if str_includes pl a then max m 1.0 else max m 0.6) else m)"
    using Cons.prems by (simp add: max_def)
  from Cons.IH[OF this] Cons.prems show ?case
    by (simp add: max_def)
qed

lemma categoryLoop_closed:
  "0 \<le> m \<Longrightarrow> categoryLoop tn pl cats m =
     max m (if list_ex (\<lambda>a. str_includes tn a \<and> str_includes pl a) (concat (map snd cats)) then 1
            else if list_ex (\<lambda>a. str_includes tn a) (concat (map snd cats)) then 0.6 else 0)"
proof (induction cats arbitrary: m)
  case Nil
  then show ?case by simp
next
  case (Cons c cats)
  obtain category acts where c: "c = (category, acts)" by (cases c)
  let ?g = "\<lambda>xs. (if list_ex (\<lambda>a. str_includes tn a \<and> str_includes pl a) xs then 1
            else if list_ex (\<lambda>a. str_includes tn a) xs then 0.6 else 0) :: rat"
  have al: "actionLoop tn pl acts m = max m (?g acts)"
    using Cons.prems by (rule actionLoop_closed)
  have nn: "0 \<le> actionLoop tn pl acts m"
    unfolding al using Cons.prems by (simp add: le_max_iff_disj)
  have "categoryLoop tn pl (c # cats) m = categoryLoop tn pl cats (actionLoop tn pl acts m)"
    by (simp add: c)
  also have "\<dots> = max (actionLoop tn pl acts m) (?g (concat (map snd cats)))"
    by (rule Cons.IH[OF nn])
  also have "\<dots> = max m (max (?g acts) (?g (concat (map snd cats))))"
    unfolding al by (rule max.assoc)
  also have "max (?g acts) (?g (concat (map snd cats))) = ?g (acts @ concat (map snd cats))"
    by (rule pass_append[symmetric])
  finally show ?case by (simp add: c)
qed

lemma intentActionLoop_closed:
  "0 \<le> m \<Longrightarrow> intentActionLoop tn acts m =
     max m (if list_ex (\<lambda>a. str_includes tn a) acts then 0.8 else 0)"
proof (induction acts arbitrary: m)
  case Nil
  then show ?case by simp
next
  case (Cons a acts)
  have "0 \<le> (if str_includes tn a then max m 0.8 else m)"
    using Cons.prems by (simp add: max_def)
  from Cons.IH[OF this] Cons.prems show ?case
    by (simp add: max_def)
qed

lemma calculateActionMatch_closed:
  "calculateActionMatch t ty prompt =
     max (if list_ex (\<lambda>a. str_includes (toLowerCase (name t)) a \<and> str_includes (toLowerCase prompt) a)
               (concat (map snd actionPatterns)) then 1
          else if list_ex (\<lambda>a. str_includes (toLowerCase (name t)) a) (concat (map snd actionPatterns))
          then 0.6 else 0)
         (if list_ex (\<lambda>a. str_includes (toLowerCase (name t)) a) (expectedActionsOf ty) then 0.8 else 0)"
proof -
  let ?a = "(if list_ex (\<lambda>a. str_includes (toLowerCase (name t)) a \<and> str_includes (toLowerCase prompt) a)
               (concat (map snd actionPatterns)) then 1
          else if list_ex (\<lambda>a. str_includes (toLowerCase (name t)) a) (concat (map snd actionPatterns))
          then 0.6 else 0) :: rat"
  have a: "categoryLoop (toLowerCase (name t)) (toLowerCase prompt) actionPatterns 0 = ?a"
    by (simp add: categoryLoop_closed)
  have "0 \<le> ?a" by simp
  then show ?thesis
    unfolding calculateActionMatch_def Let_def a
    by (rule intentActionLoop_closed)
qed

lemma calculateActionMatch_range:
  "0 \<le> calculateActionMatch t ty prompt \<and> calculateActionMatch t ty prompt \<le> 1"
  unfolding calculateActionMatch_closed by simp

lemma ran_defaultDomainWeights: "ran (map_of defaultDomainWeights) \<subseteq> {0..1}"
proof
  fix w assume "w \<in> ran (map_of defaultDomainWeights)"
  then obtain d where "map_of defaultDomainWeights d = Some w"
    by (auto simp: ran_def)
  then have "(d, w) \<in> set defaultDomainWeights"
    by (rule map_of_SomeD)
  moreover have "list_all (\<lambda>(d, w). 0 \<le> w \<and> w \<le> 1) defaultDomainWeights"
    by (simp add: defaultDomainWeights_def)
  ultimately show "w \<in> {0..1}"
    by (auto simp: list_all_iff)
qed

lemma ran_mergedDomainWeights:
  assumes "case domainWeights params of None \<Rightarrow> True | Some overrides \<Rightarrow> ran overrides \<subseteq> {0..1}"
  shows "ran (mergedDomainWeights params) \<subseteq> {0..1}"
proof
  fix w assume "w \<in> ran (mergedDomainWeights params)"
  then obtain d where d: "mergedDomainWeights params d = Some w"
    by (auto simp: ran_def)
  show "w \<in> {0..1}"
  proof (cases "domainWeights params")
    case None
    with d have "map_of defaultDomainWeights d = Some w"
      by (simp add: mergedDomainWeights_def)
    then have "w \<in> ran (map_of defaultDomainWeights)" by (rule ranI)
    with ran_defaultDomainWeights show ?thesis by blast
  next
    case (Some overrides)
    with d have "(map_of defaultDomainWeights ++ overrides) d = Some w"
      by (simp add: mergedDomainWeights_def)
    then have "overrides d = Some w \<or> map_of defaultDomainWeights d = Some w"
      by (auto simp: map_add_Some_iff)
    then have "w \<in> ran overrides \<or> w \<in> ran (map_of defaultDomainWeights)"
      by (auto intro: ranI)
    with assms Some ran_defaultDomainWeights show ?thesis by auto
  qed
qed

lemma domainLoop_no_match:
  "\<not> list_ex (\<lambda>d. str_includes toolText (toLowerCase d)) ds \<Longrightarrow>
   domainLoop toolText wt ds (tot, mc) = (tot, mc)"
  by (induction ds) (simp_all add: Let_def)

text \<open>
  The range of the four components, for a table whose weights lie in \<open>[0, 1]\<close>: three of
  them always lie in \<open>[0, 1]\<close>; \<open>domainRelevance\<close> does whenever it is a number, and it
  is \<open>NaN\<close> exactly when a domain that matches the text of the tool is a key the table
  does not hold and \<open>Object.prototype\<close> does.
\<close>

lemma components_in_unit_interval_when_number:
  assumes "ran weightTable \<subseteq> {0..1}"
  shows "0 \<le> keywordMatch (components (calculateToolScore t intent prompt weightTable))
       \<and> keywordMatch (components (calculateToolScore t intent prompt weightTable)) \<le> 1
       \<and> (\<forall>d. domainRelevance (components (calculateToolScore t intent prompt weightTable)) = Num d
              \<longrightarrow> 0 \<le> d \<and> d \<le> 1)
       \<and> (domainRelevance (components (calculateToolScore t intent prompt weightTable)) = NaN
            \<longleftrightarrow> list_ex (\<lambda>domain. str_includes (domainToolText t) (toLowerCase domain)
                                  \<and> weightTable domain = None
                                  \<and> domain \<in> set objectPrototypeKeys) (domains intent))
       \<and> 0 \<le> typeRelevance (components (calculateToolScore t intent prompt weightTable))
       \<and> typeRelevance (components (calculateToolScore t intent prompt weightTable)) \<le> 1
       \<and> 0 \<le> actionMatch (components (calculateToolScore t intent prompt weightTable))
       \<and> actionMatch (components (calculateToolScore t intent prompt weightTable)) \<le> 1"
proof -
  have wt: "\<forall>d w. weightTable d = Some w \<longrightarrow> 0 \<le> w \<and> w \<le> 1"
    using assms by (auto simp: ran_def)
  have c: "components (calculateToolScore t intent prompt weightTable) =
      \<lparr>keywordMatch = calculateKeywordMatch t (keywords' intent) prompt,
       domainRelevance = calculateDomainRelevance t (domains intent) weightTable,
       typeRelevance = calculateTypeRelevance t (type intent),
       actionMatch = calculateActionMatch t (type intent) prompt\<rparr>"
    by (simp add: calculateToolScore_def Let_def)
  have inh: "\<And>domain. weightOf weightTable domain = InheritedMember \<longleftrightarrow>
               weightTable domain = None \<and> domain \<in> set objectPrototypeKeys"
    by (simp add: weightOf_def split: option.splits)
  have d: "\<forall>d. calculateDomainRelevance t (domains intent) weightTable = Num d \<longrightarrow> 0 \<le> d \<and> d \<le> 1"
    using calculateDomainRelevance_range[OF wt] by blast
  show ?thesis
    unfolding c
    using calculateKeywordMatch_range[of t "keywords' intent" prompt] d
      calculateDomainRelevance_NaN_iff[of t "domains intent" weightTable]
      calculateTypeRelevance_range[of t "type intent"]
      calculateActionMatch_range[of t "type intent" prompt]
    by (simp add: inh)
qed

section \<open>Properties of the selector\<close>

lemma diversityPenalty_spec:
  "score e * (1 - diversityPenalty
       (length (filter (\<lambda>a. serverName a = serverName e) accepted))
       (length (filter (\<lambda>a. inferToolCategory (tool a) = inferToolCategory (tool e)) accepted)))
   = spec_adjustedScore accepted e"
  by (simp add: spec_adjustedScore_def diversityPenalty_def Let_def)

lemma getCount_upd:
  "getCount (m(k \<mapsto> c)) k' = (if k' = k then c else getCount m k')"
  by (simp add: getCount_def)

lemma hybridLoop_length:
  "length (selected st) \<le> n \<Longrightarrow> length (selected (hybridLoop n ts st)) \<le> n"
proof (induction ts arbitrary: st)
  case Nil
  then show ?case by simp
next
  case (Cons t ts)
  show ?case
  proof (cases "n \<le> length (selected st)")
    case True
    with Cons.prems show ?thesis by simp
  next
    case False
    then have "length (selected st @ [t]) \<le> n" by simp
    with False Cons.IH Cons.prems show ?thesis
      by (simp add: Let_def)
  qed
qed

lemma hybridLoop_subseq:
  "\<exists>ys. selected (hybridLoop n ts st) = selected st @ ys \<and> subseq ys ts"
proof (induction ts arbitrary: st)
  case Nil
  then show ?case by simp
next
  case (Cons t ts)
  let ?sc = "getCount (serverCounts st) (serverName t)"
  let ?cc = "getCount (categoryCounts st) (inferToolCategory (tool t))"
  let ?st' = "\<lparr>selected = selected st @ [t],
      serverCounts = (serverCounts st)(serverName t \<mapsto> ?sc + 1),
      categoryCounts = (categoryCounts st)(inferToolCategory (tool t) \<mapsto> ?cc + 1)\<rparr>"
  show ?case
  proof (cases "n \<le> length (selected st)")
    case True
    then show ?thesis by simp
  next
    case brk: False
    show ?thesis
    proof (cases "0.15 < score t * (1 - diversityPenalty ?sc ?cc)")
      case True
      have step: "hybridLoop n (t # ts) st = hybridLoop n ts ?st'"
        using brk True by (simp add: Let_def)
      from Cons.IH[of ?st'] obtain ys where
        ys: "selected (hybridLoop n ts ?st') = selected st @ [t] @ ys" "subseq ys ts"
        by auto
      have "selected (hybridLoop n (t # ts) st) = selected st @ (t # ys) \<and> subseq (t # ys) (t # ts)"
        unfolding step using ys by simp
      then show ?thesis by blast
    next
      case False
      have step: "hybridLoop n (t # ts) st = hybridLoop n ts st"
        using brk False by (simp add: Let_def)
      from Cons.IH[of st] obtain ys where
        ys: "selected (hybridLoop n ts st) = selected st @ ys" "subseq ys ts"
        by auto
      have "selected (hybridLoop n (t # ts) st) = selected st @ ys \<and> subseq ys (t # ts)"
        unfolding step using ys by (simp add: list_emb_Cons)
      then show ?thesis by blast
    qed
  qed
qed

lemma hybridLoop_adjusted:
  assumes "\<forall>k. getCount (serverCounts st) k = length (filter (\<lambda>a. serverName a = k) (selected st))"
      and "\<forall>k. getCount (categoryCounts st) k =
                length (filter (\<lambda>a. inferToolCategory (tool a) = k) (selected st))"
      and "\<forall>i<length (selected st).
             0.15 < spec_adjustedScore (take i (selected st)) (selected st ! i)"
  shows "\<forall>i<length (selected (hybridLoop n ts st)).
           0.15 < spec_adjustedScore (take i (selected (hybridLoop n ts st)))
                    (selected (hybridLoop n ts st) ! i)"
  using assms
proof (induction ts arbitrary: st)
  case Nil
  then show ?case by simp
next
  case (Cons t ts)
  let ?sc = "getCount (serverCounts st) (serverName t)"
  let ?cc = "getCount (categoryCounts st) (inferToolCategory (tool t))"
  let ?adj = "score t * (1 - diversityPenalty ?sc ?cc) :: rat"
  let ?st' = "\<lparr>selected = selected st @ [t],
      serverCounts = (serverCounts st)(serverName t \<mapsto> ?sc + 1),
      categoryCounts = (categoryCounts st)(inferToolCategory (tool t) \<mapsto> ?cc + 1)\<rparr>"
  have adj: "?adj = spec_adjustedScore (selected st) t"
    using Cons.prems(1,2) by (simp add: diversityPenalty_spec)
  show ?case
  proof (cases "n \<le> length (selected st)")
    case True
    with Cons.prems(3) show ?thesis by simp
  next
    case brk: False
    show ?thesis
    proof (cases "0.15 < ?adj")
      case True
      have step: "hybridLoop n (t # ts) st = hybridLoop n ts ?st'"
        using brk True by (simp add: Let_def)
      have c1: "\<forall>k. getCount (serverCounts ?st') k =
                  length (filter (\<lambda>a. serverName a = k) (selected ?st'))"
        using Cons.prems(1) by (simp add: getCount_upd)
      have c2: "\<forall>k. getCount (categoryCounts ?st') k =
                  length (filter (\<lambda>a. inferToolCategory (tool a) = k) (selected ?st'))"
        using Cons.prems(2) by (simp add: getCount_upd)
      have c3: "\<forall>i<length (selected ?st').
                  0.15 < spec_adjustedScore (take i (selected ?st')) (selected ?st' ! i)"
      proof (intro allI impI)
        fix i assume i: "i < length (selected ?st')"
        show "0.15 < spec_adjustedScore (take i (selected ?st')) (selected ?st' ! i)"
        proof (cases "i < length (selected st)")
          case True
          with Cons.prems(3) show ?thesis by (simp add: nth_append)
        next
          case False
          with i have "i = length (selected st)" by simp
          with \<open>0.15 < ?adj\<close> adj show ?thesis by simp
        qed
      qed
      show ?thesis unfolding step by (rule Cons.IH[OF c1 c2 c3])
    next
      case False
      have step: "hybridLoop n (t # ts) st = hybridLoop n ts st"
        using brk False by (simp add: Let_def)
      show ?thesis unfolding step by (rule Cons.IH[OF Cons.prems])
    qed
  qed
qed

section \<open>The claims\<close>

subsection \<open>C1\<close>

text \<open>
  Claim C1. For every tool, intent, prompt and table of domain weights, the aggregate that
  \<open>calculateToolScore\<close> returns is the weighted sum of the four components it returns with
  it, \<open>0.35 * keywordMatch + 0.25 * domainRelevance + 0.20 * typeRelevance +
  0.20 * actionMatch\<close>, in the arithmetic of JavaScript; when \<open>domainRelevance\<close> is a
  number, the aggregate is that rational number. Every entry of the output of
  \<open>scoreTools\<close>, for every list of tools and every configuration, carries an aggregate
  and four components, all numbers, related in this way. The numbers are exact rationals,
  so the equation is exact.
\<close>

theorem C1_aggregate_is_weighted_sum:
  "score (calculateToolScore t intent prompt weightTable) =
     js_add (js_add (js_add
       (js_mul (Num 0.35) (Num (keywordMatch (components (calculateToolScore t intent prompt weightTable)))))
       (js_mul (Num 0.25) (domainRelevance (components (calculateToolScore t intent prompt weightTable)))))
       (js_mul (Num 0.20) (Num (typeRelevance (components (calculateToolScore t intent prompt weightTable))))))
       (js_mul (Num 0.20) (Num (actionMatch (components (calculateToolScore t intent prompt weightTable)))))
   \<and> (\<forall>d. domainRelevance (components (calculateToolScore t intent prompt weightTable)) = Num d \<longrightarrow>
         score (calculateToolScore t intent prompt weightTable) =
           Num (0.35 * keywordMatch (components (calculateToolScore t intent prompt weightTable))
              + 0.25 * d
              + 0.20 * typeRelevance (components (calculateToolScore t intent prompt weightTable))
              + 0.20 * actionMatch (components (calculateToolScore t intent prompt weightTable))))
   \<and> (\<forall>e \<in> set (scoreTools tools intent prompt params).
        score e = 0.35 * keywordMatch (components e) + 0.25 * domainRelevance (components e)
                + 0.20 * typeRelevance (components e) + 0.20 * actionMatch (components e))"
proof (intro conjI ballI allI impI)
  let ?r = "calculateToolScore t intent prompt weightTable"
  show "score ?r =
     js_add (js_add (js_add
       (js_mul (Num 0.35) (Num (keywordMatch (components ?r))))
       (js_mul (Num 0.25) (domainRelevance (components ?r))))
       (js_mul (Num 0.20) (Num (typeRelevance (components ?r)))))
       (js_mul (Num 0.20) (Num (actionMatch (components ?r))))"
    by (cases "domainRelevance (components ?r)") (simp_all add: calculateToolScore_score)
  fix d assume "domainRelevance (components ?r) = Num d"
  then show "score ?r =
           Num (0.35 * keywordMatch (components ?r) + 0.25 * d
              + 0.20 * typeRelevance (components ?r) + 0.20 * actionMatch (components ?r))"
    by (simp add: calculateToolScore_score)
next
  fix e assume "e \<in> set (scoreTools tools intent prompt params)"
  from scoreTools_set[OF this] obtain t' where
    s: "score (calculateToolScore t' intent prompt (mergedDomainWeights params)) = Num (score e)"
    and d: "domainRelevance (components (calculateToolScore t' intent prompt (mergedDomainWeights params)))
          = Num (domainRelevance (components e))"
    and k: "keywordMatch (components e)
          = keywordMatch (components (calculateToolScore t' intent prompt (mergedDomainWeights params)))"
    and ty: "typeRelevance (components e)
          = typeRelevance (components (calculateToolScore t' intent prompt (mergedDomainWeights params)))"
    and a: "actionMatch (components e)
          = actionMatch (components (calculateToolScore t' intent prompt (mergedDomainWeights params)))"
    by blast
  from calculateToolScore_score[of t' intent prompt "mergedDomainWeights params"]
  show "score e = 0.35 * keywordMatch (components e) + 0.25 * domainRelevance (components e)
                + 0.20 * typeRelevance (components e) + 0.20 * actionMatch (components e)"
    unfolding s d k ty a by simp
qed

theorem C1_aggregate_is_weighted_sum_witness:
  "map score (scoreTools [(build_tool, ''remix'')] compile_intent compile_prompt defaultParams)
     = [0.61]
   \<and> map (\<lambda>e. 0.35 * keywordMatch (components e) + 0.25 * domainRelevance (components e)
               + 0.20 * typeRelevance (components e) + 0.20 * actionMatch (components e))
       (scoreTools [(build_tool, ''remix'')] compile_intent compile_prompt defaultParams)
     = [0.61]"
proof -
  let ?out = "scoreTools [(build_tool, ''remix'')] compile_intent compile_prompt defaultParams"
  have ev: "map score ?out = [61 / 100]"
    by code_simp
  have "map (\<lambda>e. 0.35 * keywordMatch (components e) + 0.25 * domainRelevance (components e)
               + 0.20 * typeRelevance (components e) + 0.20 * actionMatch (components e)) ?out
        = map score ?out"
    using C1_aggregate_is_weighted_sum
            [of build_tool compile_intent compile_prompt "mergedDomainWeights defaultParams"
                "[(build_tool, ''remix'')]" defaultParams]
    by (intro map_cong) simp_all
  with ev show ?thesis by simp
qed

subsection \<open>C2\<close>

text \<open>
  Claim C2. For every list of tools, intent, prompt and configuration, no entry of the
  output of \<open>scoreTools\<close> has an aggregate below the configured relevance threshold
  (\<open>0.3\<close> when none is configured), nor below the threshold the code filters with, and
  the output is sorted by aggregate, non-increasing.
\<close>

theorem C2_threshold_and_order:
  "(\<forall>e \<in> set (scoreTools tools intent prompt params).
      (case toolRelevanceThreshold params of None \<Rightarrow> 0.3 | Some th \<Rightarrow> th) \<le> score e
      \<and> relevanceThresholdOf params \<le> score e)
   \<and> sorted_wrt (\<lambda>a b. score b \<le> score a) (scoreTools tools intent prompt params)"
proof (intro conjI ballI)
  fix e assume "e \<in> set (scoreTools tools intent prompt params)"
  from scoreTools_set[OF this] show eff: "relevanceThresholdOf params \<le> score e" by auto
  with relevanceThresholdOf_ge[of params]
  show "(case toolRelevanceThreshold params of None \<Rightarrow> 0.3 | Some th \<Rightarrow> th) \<le> score e"
    by (rule order_trans)
next
  show "sorted_wrt (\<lambda>a b. score b \<le> score a) (scoreTools tools intent prompt params)"
    by (simp add: scoreTools_def Let_def sorted_sortByScore)
qed

theorem C2_threshold_and_order_witness:
  "map score (scoreTools [(unrelated_tool, ''a''), (build_tool, ''b''), (compile_tool, ''c'')]
               compile_intent compile_prompt defaultParams) = [1, 0.61]
   \<and> list_all (\<lambda>e. 0.3 \<le> score e)
        (scoreTools [(unrelated_tool, ''a''), (build_tool, ''b''), (compile_tool, ''c'')]
               compile_intent compile_prompt defaultParams)
   \<and> sorted_wrt (\<lambda>a b. score b \<le> score a)
        (scoreTools [(unrelated_tool, ''a''), (build_tool, ''b''), (compile_tool, ''c'')]
               compile_intent compile_prompt defaultParams)"
proof -
  let ?out = "scoreTools [(unrelated_tool, ''a''), (build_tool, ''b''), (compile_tool, ''c'')]
               compile_intent compile_prompt defaultParams"
  have ev: "map score ?out = [1, 61 / 100]"
    by code_simp
  have th: "toolRelevanceThreshold defaultParams = None"
    by (simp add: defaultParams_def)
  show ?thesis
    using C2_threshold_and_order
            [of "[(unrelated_tool, ''a''), (build_tool, ''b''), (compile_tool, ''c'')]"
                compile_intent compile_prompt defaultParams]
    by (simp add: ev th list_all_iff)
qed

subsection \<open>C3\<close>

text \<open>
  Claim C3 says that each of the four components lies in \<open>[0, 1]\<close> for every tool,
  intent and prompt and every table of domain weights whose weights lie in \<open>[0, 1]\<close>.
  The code breaks the bound for \<open>domainRelevance\<close>. With the default configuration every
  weight of the table lies in \<open>[0, 1]\<close> and the table has no key \<open>constructor\<close>; for a
  tool whose name holds \<open>constructor\<close> and an intent with the domain \<open>constructor\<close>,
  the lookup yields the member inherited from \<open>Object.prototype\<close>, \<open>|| 0.5\<close> keeps
  it, the sum becomes a string and \<open>domainRelevance\<close> is \<open>NaN\<close>; so is the aggregate,
  and \<open>scoreTools\<close> drops the tool. The lemma \<open>components_in_unit_interval_when_number\<close>
  shows that this is the only way out of the interval.
\<close>

theorem C3_inherited_key_yields_NaN:
  "ran (mergedDomainWeights defaultParams) \<subseteq> {0..1}
   \<and> mergedDomainWeights defaultParams ''constructor'' = None
   \<and> str_includes (domainToolText constructor_tool) (toLowerCase ''constructor'')
   \<and> weightOf (mergedDomainWeights defaultParams) ''constructor'' = InheritedMember
   \<and> domainRelevance (components (calculateToolScore constructor_tool constructor_intent
        ''compile it'' (mergedDomainWeights defaultParams))) = NaN
   \<and> score (calculateToolScore constructor_tool constructor_intent
        ''compile it'' (mergedDomainWeights defaultParams)) = NaN
   \<and> scoreTools [(constructor_tool, ''remix'')] constructor_intent ''compile it'' defaultParams = []"
proof -
  have h: "ran (mergedDomainWeights defaultParams) \<subseteq> {0..1}"
    by (rule ran_mergedDomainWeights) (simp add: defaultParams_def)
  have n: "mergedDomainWeights defaultParams ''constructor'' = None"
    by (simp add: mergedDomainWeights_def defaultParams_def defaultDomainWeights_def)
  have m: "str_includes (domainToolText constructor_tool) (toLowerCase ''constructor'')"
    by code_simp
  have w: "weightOf (mergedDomainWeights defaultParams) ''constructor'' = InheritedMember"
    by (simp add: weightOf_def n objectPrototypeKeys_def)
  have d: "domainRelevance (components (calculateToolScore constructor_tool constructor_intent
        ''compile it'' (mergedDomainWeights defaultParams))) = NaN"
    by code_simp
  have s: "score (calculateToolScore constructor_tool constructor_intent
        ''compile it'' (mergedDomainWeights defaultParams)) = NaN"
    using d by (simp add: score_NaN_iff)
  have l: "scoreTools [(constructor_tool, ''remix'')] constructor_intent ''compile it'' defaultParams = []"
    by (simp add: scoreTools_def Let_def s sortByScore_def)
  from h n m w d s l show ?thesis by simp
qed

subsection \<open>C4\<close>

text \<open>
  Claim C4. For every list of scored entries and every \<open>maxTools\<close>, the selection by
  \<open>hybrid\<close> (the strategy \<open>selectTools\<close> dispatches the tag \<open>hybrid\<close> to) returns at
  most \<open>maxTools\<close> entries; every entry it returns has an adjusted score above
  \<open>0.15\<close>, where the adjusted score is the aggregate times one minus the penalty and
  the penalty counts the entries accepted before it with the same source and with the same
  inferred category; and the entries it returns are a subsequence of the input, so they
  keep the order of the input.
\<close>

theorem C4_hybrid_selection:
  "selectTools tools (Some maxTools) (Some ''hybrid'') = selectByHybrid tools maxTools
   \<and> length (selectByHybrid tools maxTools) \<le> maxTools
   \<and> (\<forall>i < length (selectByHybrid tools maxTools).
         0.15 < spec_adjustedScore (take i (selectByHybrid tools maxTools))
                  (selectByHybrid tools maxTools ! i))
   \<and> subseq (selectByHybrid tools maxTools) tools"
proof (intro conjI)
  let ?init = "\<lparr>selected = [], serverCounts = Map.empty, categoryCounts = Map.empty\<rparr>"
  show "selectTools tools (Some maxTools) (Some ''hybrid'') = selectByHybrid tools maxTools"
    by (simp add: selectTools_def)
  show "length (selectByHybrid tools maxTools) \<le> maxTools"
    unfolding selectByHybrid_def by (rule hybridLoop_length) simp
  show "\<forall>i < length (selectByHybrid tools maxTools).
         0.15 < spec_adjustedScore (take i (selectByHybrid tools maxTools))
                  (selectByHybrid tools maxTools ! i)"
    unfolding selectByHybrid_def
    by (rule hybridLoop_adjusted) (simp_all add: getCount_def)
  from hybridLoop_subseq[of maxTools tools ?init]
  show "subseq (selectByHybrid tools maxTools) tools"
    by (auto simp: selectByHybrid_def)
qed

theorem C4_hybrid_selection_witness:
  "map score (selectByHybrid
      [scored ''compile_a'' ''s'' 0.9, scored ''compile_b'' ''s'' 0.17, scored ''build_c'' ''s'' 0.8] 3)
     = [0.9, 0.8]
   \<and> spec_adjustedScore [scored ''compile_a'' ''s'' 0.9] (scored ''compile_b'' ''s'' 0.17) = 0.1445
   \<and> (1::nat) < length (selectByHybrid
      [scored ''compile_a'' ''s'' 0.9, scored ''compile_b'' ''s'' 0.17, scored ''build_c'' ''s'' 0.8] 3)
   \<and> 0.15 < spec_adjustedScore
        (take 1 (selectByHybrid
           [scored ''compile_a'' ''s'' 0.9, scored ''compile_b'' ''s'' 0.17, scored ''build_c'' ''s'' 0.8] 3))
        (selectByHybrid
           [scored ''compile_a'' ''s'' 0.9, scored ''compile_b'' ''s'' 0.17, scored ''build_c'' ''s'' 0.8] 3 ! 1)
   \<and> length (selectByHybrid
      [scored ''compile_a'' ''s'' 0.9, scored ''compile_b'' ''s'' 0.17, scored ''build_c'' ''s'' 0.8] 3) \<le> 3
   \<and> subseq (selectByHybrid
      [scored ''compile_a'' ''s'' 0.9, scored ''compile_b'' ''s'' 0.17, scored ''build_c'' ''s'' 0.8] 3)
      [scored ''compile_a'' ''s'' 0.9, scored ''compile_b'' ''s'' 0.17, scored ''build_c'' ''s'' 0.8]"
proof -
  let ?in = "[scored ''compile_a'' ''s'' 0.9, scored ''compile_b'' ''s'' 0.17, scored ''build_c'' ''s'' 0.8]"
  have ev: "map score (selectByHybrid ?in 3) = [9 / 10, 8 / 10]"
    by code_simp
  have ev2: "spec_adjustedScore [scored ''compile_a'' ''s'' 0.9] (scored ''compile_b'' ''s'' 0.17) = 1445 / 10000"
    by code_simp
  from ev have "length (map score (selectByHybrid ?in 3)) = 2" by simp
  then have len: "length (selectByHybrid ?in 3) = 2" by simp
  show ?thesis
    using C4_hybrid_selection[of ?in 3] ev ev2 len
    by simp
qed

subsection \<open>C5\<close>

text \<open>
  Claim C5. For every tool, intent type and prompt, \<open>actionMatch\<close> is the maximum of the
  two passes: the first is \<open>1.0\<close> when some verb of the action table occurs in the
  tool's name and in the prompt, else \<open>0.6\<close> when some verb of the table occurs in the
  name, else \<open>0\<close>; the second is \<open>0.8\<close> when some verb expected for the intent's type
  occurs in the name, else \<open>0\<close>. The name and the prompt are compared in lower case, as
  the code compares them. The witness has one input where the first pass gives
  \<open>1.0\<close> and the second \<open>0.8\<close>, with result \<open>1.0\<close>, and one where the first gives
  \<open>0.6\<close> and the second \<open>0.8\<close>, with result \<open>0.8\<close>.
\<close>

theorem C5_actionMatch_is_running_maximum:
  "calculateActionMatch t intentType prompt =
     max (if list_ex (\<lambda>verb. str_includes (toLowerCase (name t)) verb
                          \<and> str_includes (toLowerCase prompt) verb)
               (concat (map snd actionPatterns)) then 1.0
          else if list_ex (\<lambda>verb. str_includes (toLowerCase (name t)) verb)
                    (concat (map snd actionPatterns)) then 0.6
          else 0)
         (if list_ex (\<lambda>verb. str_includes (toLowerCase (name t)) verb)
               (expectedActionsOf intentType) then 0.8
          else 0)"
  using calculateActionMatch_closed[of t intentType prompt] by simp

theorem C5_actionMatch_is_running_maximum_witness:
  "list_ex (\<lambda>verb. str_includes (toLowerCase (name compile_tool)) verb
                   \<and> str_includes (toLowerCase compile_prompt) verb)
     (concat (map snd actionPatterns))
   \<and> list_ex (\<lambda>verb. str_includes (toLowerCase (name compile_tool)) verb)
       (expectedActionsOf coding)
   \<and> calculateActionMatch compile_tool coding compile_prompt = 1
   \<and> \<not> list_ex (\<lambda>verb. str_includes (toLowerCase (name build_tool)) verb
                   \<and> str_includes (toLowerCase compile_prompt) verb)
        (concat (map snd actionPatterns))
   \<and> list_ex (\<lambda>verb. str_includes (toLowerCase (name build_tool)) verb)
       (concat (map snd actionPatterns))
   \<and> list_ex (\<lambda>verb. str_includes (toLowerCase (name build_tool)) verb)
       (expectedActionsOf coding)
   \<and> calculateActionMatch build_tool coding compile_prompt = 0.8"
proof -
  have a1: "list_ex (\<lambda>verb. str_includes (toLowerCase (name compile_tool)) verb
                   \<and> str_includes (toLowerCase compile_prompt) verb)
     (concat (map snd actionPatterns))"
    by code_simp
  have b1: "list_ex (\<lambda>verb. str_includes (toLowerCase (name compile_tool)) verb)
       (expectedActionsOf coding)"
    by code_simp
  have a2: "\<not> list_ex (\<lambda>verb. str_includes (toLowerCase (name build_tool)) verb
                   \<and> str_includes (toLowerCase compile_prompt) verb)
        (concat (map snd actionPatterns))"
    by code_simp
  have a3: "list_ex (\<lambda>verb. str_includes (toLowerCase (name build_tool)) verb)
       (concat (map snd actionPatterns))"
    by code_simp
  have b2: "list_ex (\<lambda>verb. str_includes (toLowerCase (name build_tool)) verb)
       (expectedActionsOf coding)"
    by code_simp
  have r1: "calculateActionMatch compile_tool coding compile_prompt = 1"
    using C5_actionMatch_is_running_maximum[of compile_tool coding compile_prompt] a1 b1
    by simp
  have r2: "calculateActionMatch build_tool coding compile_prompt = 0.8"
    using C5_actionMatch_is_running_maximum[of build_tool coding compile_prompt] a2 a3 b2
    by simp
  from a1 b1 r1 a2 a3 b2 r2 show ?thesis by blast
qed

subsection \<open>C6\<close>

text \<open>
  Claim C6, as amended. For every tool and table of domain weights: when the list of
  domains is empty, \<open>domainRelevance\<close> is \<open>0.5\<close>; when it is not empty and no
  domain, put in lower case, occurs in the lower-case text of the tool's name and
  description, \<open>domainRelevance\<close> is \<open>0\<close>.
\<close>

theorem C6_domainRelevance_neutral_or_zero:
  "(domainList = [] \<longrightarrow> calculateDomainRelevance t domainList weightTable = Num 0.5)
   \<and> (domainList \<noteq> []
        \<and> \<not> list_ex (\<lambda>domain. str_includes (domainToolText t) (toLowerCase domain)) domainList
       \<longrightarrow> calculateDomainRelevance t domainList weightTable = Num 0)"
proof (intro conjI impI)
  assume "domainList = []"
  then show "calculateDomainRelevance t domainList weightTable = Num 0.5"
    by (simp add: calculateDomainRelevance_def)
next
  assume a: "domainList \<noteq> []
        \<and> \<not> list_ex (\<lambda>domain. str_includes (domainToolText t) (toLowerCase domain)) domainList"
  then have "domainLoop (domainToolText t) weightTable domainList (Total 0, 0) = (Total 0, 0)"
    by (simp add: domainLoop_no_match)
  with a show "calculateDomainRelevance t domainList weightTable = Num 0"
    by (simp add: calculateDomainRelevance_def)
qed

theorem C6_domainRelevance_neutral_or_zero_witness:
  "calculateDomainRelevance unrelated_tool [] (mergedDomainWeights defaultParams) = Num 0.5
   \<and> [''solidity''] \<noteq> []
   \<and> \<not> list_ex (\<lambda>domain. str_includes (domainToolText unrelated_tool) (toLowerCase domain))
          [''solidity'']
   \<and> calculateDomainRelevance unrelated_tool [''solidity''] (mergedDomainWeights defaultParams) = Num 0"
proof -
  have h: "\<not> list_ex (\<lambda>domain. str_includes (domainToolText unrelated_tool) (toLowerCase domain))
          [''solidity'']"
    by code_simp
  show ?thesis
    using h
      C6_domainRelevance_neutral_or_zero
        [of "[]" unrelated_tool "mergedDomainWeights defaultParams"]
      C6_domainRelevance_neutral_or_zero
        [of "[''solidity'']" unrelated_tool "mergedDomainWeights defaultParams"]
    by simp
qed

text \<open>
  The claim as first stated looks for the domain as it is written in the lower-case text.
  The code puts the domain in lower case before it looks: the domain \<open>Solidity\<close> does
  not occur in the lower-case text of the tool \<open>compile_contract\<close>, yet it matches, and
  \<open>domainRelevance\<close> is \<open>0.5\<close> (the weight of a domain absent from the table, which
  is read under the domain as written), not \<open>0\<close>.
\<close>

theorem C6_capitalised_domain_counterexample:
  "[''Solidity''] \<noteq> []
   \<and> \<not> list_ex (\<lambda>domain. str_includes (domainToolText compile_tool) domain) [''Solidity'']
   \<and> calculateDomainRelevance compile_tool [''Solidity''] (mergedDomainWeights defaultParams) = Num 0.5
   \<and> calculateDomainRelevance compile_tool [''Solidity''] (mergedDomainWeights defaultParams) \<noteq> Num 0"
proof -
  have a: "\<not> list_ex (\<lambda>domain. str_includes (domainToolText compile_tool) domain) [''Solidity'']"
    by code_simp
  have b: "calculateDomainRelevance compile_tool [''Solidity''] (mergedDomainWeights defaultParams)
             = Num (1 / 2)"
    by code_simp
  from a b show ?thesis by simp
qed

subsection \<open>C7\<close>

text \<open>
  Claim C7, as amended. For the tool \<open>compile_contract\<close> with description \<open>Compiles
  solidity contracts\<close>, the intent of type coding with keyword \<open>compile\<close> and domain
  \<open>solidity\<close>, the prompt \<open>please compile my contract\<close> and the default configuration,
  the four components and the aggregate are all \<open>1.0\<close>. \<open>keywordMatch\<close> is \<open>1.0\<close>
  by the direct match of \<open>compile\<close> alone: the prompt does not contain the tool's name
  \<open>compile_contract\<close>, so no bonus is added, and the sum of the awards is \<open>1.0\<close>.
\<close>

theorem C7_compile_scenario:
  "components (calculateToolScore compile_tool compile_intent compile_prompt
                 (mergedDomainWeights defaultParams))
     = \<lparr>keywordMatch = 1.0, domainRelevance = Num 1.0, typeRelevance = 1.0, actionMatch = 1.0\<rparr>
   \<and> score (calculateToolScore compile_tool compile_intent compile_prompt
               (mergedDomainWeights defaultParams)) = Num 1.0
   \<and> map score (scoreTools [(compile_tool, server)] compile_intent compile_prompt defaultParams)
       = [1.0]
   \<and> str_includes (keywordToolText compile_tool) (toLowerCase ''compile'')
   \<and> \<not> str_includes (toLowerCase compile_prompt) (toLowerCase (name compile_tool))
   \<and> keywordMatchScore compile_tool (keywords' compile_intent) compile_prompt = 1.0"
proof -
  have c: "components (calculateToolScore compile_tool compile_intent compile_prompt
                 (mergedDomainWeights defaultParams))
     = \<lparr>keywordMatch = 1, domainRelevance = Num 1, typeRelevance = 1, actionMatch = 1\<rparr>"
    by code_simp
  have s: "score (calculateToolScore compile_tool compile_intent compile_prompt
               (mergedDomainWeights defaultParams)) = Num 1"
    by code_simp
  have th: "relevanceThresholdOf defaultParams = 3 / 10"
    by (simp add: relevanceThresholdOf_def defaultParams_def)
  have l: "map score (scoreTools [(compile_tool, server)] compile_intent compile_prompt defaultParams)
       = [1]"
    by (simp add: scoreTools_def Let_def th s c sortByScore_def)
  have d: "str_includes (keywordToolText compile_tool) (toLowerCase ''compile'')"
    by code_simp
  have n: "\<not> str_includes (toLowerCase compile_prompt) (toLowerCase (name compile_tool))"
    by code_simp
  have m: "keywordMatchScore compile_tool (keywords' compile_intent) compile_prompt = 1"
    by code_simp
  from c s l d n m show ?thesis by simp
qed

text \<open>
  The claim as first stated has \<open>keywordMatch\<close> reach \<open>1.0\<close> by the direct match
  plus the name-in-prompt bonus, capped: that is false at this input, where the test for
  the bonus fails and the sum is not \<open>1.0 + 1.0\<close>.
\<close>

theorem C7_name_in_prompt_bonus_counterexample:
  "\<not> (str_includes (toLowerCase compile_prompt) (toLowerCase (name compile_tool))
       \<and> keywordMatchScore compile_tool (keywords' compile_intent) compile_prompt = 1.0 + 1.0)"
proof -
  have "\<not> str_includes (toLowerCase compile_prompt) (toLowerCase (name compile_tool))"
    by code_simp
  then show ?thesis by simp
qed

subsection \<open>C8\<close>

text \<open>
  Claim C8. For every list of scored entries and every \<open>maxTools\<close>, a strategy tag other
  than \<open>priority\<close>, \<open>semantic\<close> and \<open>hybrid\<close> makes \<open>selectTools\<close> return the first
  \<open>maxTools\<close> entries of the input, in the order of the input (the first 15 when
  \<open>maxTools\<close> is left out). The function has no failing branch.
\<close>

theorem C8_unrecognized_strategy_truncates:
  assumes "strategy \<noteq> ''priority''" "strategy \<noteq> ''semantic''" "strategy \<noteq> ''hybrid''"
  shows "selectTools scoredTools (Some maxTools) (Some strategy) = take maxTools scoredTools
       \<and> selectTools scoredTools None (Some strategy) = take 15 scoredTools"
  using assms by (simp add: selectTools_def)

theorem C8_unrecognized_strategy_truncates_witness:
  "''random'' \<noteq> ''priority'' \<and> ''random'' \<noteq> ''semantic'' \<and> ''random'' \<noteq> ''hybrid''
   \<and> selectTools [scored ''a'' ''s'' 0.4, scored ''b'' ''s'' 0.9, scored ''c'' ''s'' 0.6]
        (Some 2) (Some ''random'')
      = [scored ''a'' ''s'' 0.4, scored ''b'' ''s'' 0.9]"
proof -
  have h: "''random'' \<noteq> ''priority''" "''random'' \<noteq> ''semantic''" "''random'' \<noteq> ''hybrid''"
    by simp_all
  show ?thesis
    using C8_unrecognized_strategy_truncates[OF h,
        of "[scored ''a'' ''s'' 0.4, scored ''b'' ''s'' 0.9, scored ''c'' ''s'' 0.6]" 2]
    by (simp add: numeral_2_eq_2)
qed

subsection \<open>C9\<close>

text \<open>
  Claim C9. A configuration whose \<open>toolRelevanceThreshold\<close> is \<open>0\<close> makes
  \<open>scoreTools\<close> filter with \<open>0.3\<close>: its output is the output for a configuration with
  no threshold, and a tool whose aggregate lies strictly between \<open>0\<close> and \<open>0.3\<close> is
  left out. The witness is the unrelated tool of the specification's scenario, with aggregate
  \<open>0.185\<close>.
\<close>

theorem C9_zero_threshold_treated_as_unset:
  "relevanceThresholdOf (params\<lparr>toolRelevanceThreshold := Some 0\<rparr>) = 0.3
   \<and> scoreTools tools intent prompt (params\<lparr>toolRelevanceThreshold := Some 0\<rparr>)
       = scoreTools tools intent prompt (params\<lparr>toolRelevanceThreshold := None\<rparr>)
   \<and> (score (calculateToolScore t intent prompt (mergedDomainWeights params)) = Num aggregate
        \<and> 0 < aggregate \<and> aggregate < 0.3
       \<longrightarrow> scoreTools [(t, server)] intent prompt (params\<lparr>toolRelevanceThreshold := Some 0\<rparr>) = [])"
proof (intro conjI impI)
  show th: "relevanceThresholdOf (params\<lparr>toolRelevanceThreshold := Some 0\<rparr>) = 0.3"
    by (simp add: relevanceThresholdOf_def)
  have m: "mergedDomainWeights (params\<lparr>toolRelevanceThreshold := Some 0\<rparr>) = mergedDomainWeights params"
    by (simp add: mergedDomainWeights_def)
  show "scoreTools tools intent prompt (params\<lparr>toolRelevanceThreshold := Some 0\<rparr>)
       = scoreTools tools intent prompt (params\<lparr>toolRelevanceThreshold := None\<rparr>)"
    by (simp add: scoreTools_def relevanceThresholdOf_def mergedDomainWeights_def)
  assume "score (calculateToolScore t intent prompt (mergedDomainWeights params)) = Num aggregate
        \<and> 0 < aggregate \<and> aggregate < 0.3"
  then show "scoreTools [(t, server)] intent prompt (params\<lparr>toolRelevanceThreshold := Some 0\<rparr>) = []"
    by (simp add: scoreTools_def Let_def th m sortByScore_def)
qed

theorem C9_zero_threshold_treated_as_unset_witness:
  "score (calculateToolScore unrelated_tool unrelated_intent ''x''
            (mergedDomainWeights defaultParams)) = Num 0.185
   \<and> (0::rat) < 0.185 \<and> (0.185::rat) < 0.3
   \<and> scoreTools [(unrelated_tool, ''remix'')] unrelated_intent ''x''
        (defaultParams\<lparr>toolRelevanceThreshold := Some 0\<rparr>) = []"
proof -
  have s: "score (calculateToolScore unrelated_tool unrelated_intent ''x''
            (mergedDomainWeights defaultParams)) = Num (185 / 1000)"
    by code_simp
  show ?thesis
    using s C9_zero_threshold_treated_as_unset
              [of defaultParams "[]" unrelated_intent "''x''" unrelated_tool "185 / 1000" "''remix''"]
    by simp
qed

subsection \<open>C10\<close>

text \<open>
  Claim C10. When the configuration maps a domain to the weight \<open>0\<close>, the merged table
  holds \<open>0\<close> for it, the lookup of the weight yields \<open>0.5\<close>, and for a tool whose
  text contains the domain \<open>domainRelevance\<close> of that domain alone is \<open>0.5\<close>, not
  \<open>0\<close>.
\<close>

theorem C10_zero_weight_override_ignored:
  assumes "domainWeights params = Some overrides" and "overrides domain = Some 0"
  shows "mergedDomainWeights params domain = Some 0
       \<and> weightOf (mergedDomainWeights params) domain = Weight 0.5
       \<and> (str_includes (domainToolText t) (toLowerCase domain)
            \<longrightarrow> calculateDomainRelevance t [domain] (mergedDomainWeights params) = Num 0.5)"
proof (intro conjI impI)
  show m: "mergedDomainWeights params domain = Some 0"
    using assms by (simp add: mergedDomainWeights_def)
  then show w: "weightOf (mergedDomainWeights params) domain = Weight 0.5"
    by (simp add: weightOf_def)
  assume "str_includes (domainToolText t) (toLowerCase domain)"
  then show "calculateDomainRelevance t [domain] (mergedDomainWeights params) = Num 0.5"
    using w by (simp add: calculateDomainRelevance_def Let_def)
qed

theorem C10_zero_weight_override_ignored_witness:
  "domainWeights \<lparr>domainWeights = Some [''solidity'' \<mapsto> 0], toolRelevanceThreshold = None\<rparr>
     = Some [''solidity'' \<mapsto> 0]
   \<and> [''solidity'' \<mapsto> (0::rat)] ''solidity'' = Some 0
   \<and> str_includes (domainToolText compile_tool) (toLowerCase ''solidity'')
   \<and> calculateDomainRelevance compile_tool [''solidity'']
        (mergedDomainWeights
           \<lparr>domainWeights = Some [''solidity'' \<mapsto> 0], toolRelevanceThreshold = None\<rparr>) = Num 0.5"
proof -
  have h1: "domainWeights \<lparr>domainWeights = Some [''solidity'' \<mapsto> 0], toolRelevanceThreshold = None\<rparr>
     = Some [''solidity'' \<mapsto> 0]"
    by simp
  have h2: "[''solidity'' \<mapsto> (0::rat)] ''solidity'' = Some 0"
    by simp
  have h3: "str_includes (domainToolText compile_tool) (toLowerCase ''solidity'')"
    by code_simp
  show ?thesis
    using h1 h2 h3 C10_zero_weight_override_ignored[OF h1 h2, of compile_tool]
    by simp
qed

end
